theory Spec2Isabelle
  imports Main "HOL-Library.Sublist"
begin

section \<open>Strings, values and the imported constants\<close>

text \<open>
  Lines are JavaScript strings; they are modelled as \<^typ>\<open>string\<close>, one \<^typ>\<open>char\<close>
  per code unit (code units above 255 are outside the model).

  \<^verbatim>\<open>s.includes(t)\<close>: \<open>t\<close> occurs in \<open>s\<close> as a contiguous substring.
\<close>

fun js_includes :: "string \<Rightarrow> string \<Rightarrow> bool" where
  "js_includes [] t = (t = [])"
| "js_includes (c # cs) t = (prefix t (c # cs) \<or> js_includes cs t)"

text \<open>
  The values that the arrays of lines hold: a string, or \<^verbatim>\<open>undefined\<close>. \<open>to_string\<close>
  is the conversion \<^verbatim>\<open>ToString\<close> that \<^verbatim>\<open>includes\<close> applies to its argument.
\<close>

datatype js_value = Undefined | Str string

definition to_string :: "js_value \<Rightarrow> string" where
  "to_string v = (case v of Undefined \<Rightarrow> ''undefined'' | Str s \<Rightarrow> s)"

text \<open>
  The common module. It exports \<^verbatim>\<open>markdowncodeticks\<close>, \<^verbatim>\<open>readstart\<close>,
  \<^verbatim>\<open>readend\<close>, \<^verbatim>\<open>writestart\<close> and \<^verbatim>\<open>writeend\<close>, all in lower case, and the
  function \<^verbatim>\<open>fmtStartCodeBlock\<close>, which uses the module's own \<^verbatim>\<open>markdowncodeticks\<close>.
\<close>

definition markdowncodeticks :: string where
  "markdowncodeticks = ''```''"

definition fmtStartCodeBlock :: "string \<Rightarrow> string" where
  "fmtStartCodeBlock ext = markdowncodeticks @ ext"

definition readstart :: string where
  "readstart = ''@@@START''"

definition readend :: string where
  "readend = ''@@@END''"

definition writestart :: string where
  "writestart = ''<!--START''"

definition writeend :: string where
  "writeend = ''<!--END''"

text \<open>
  \<^verbatim>\<open>Sync.ts\<close> imports \<^verbatim>\<open>markdownCodeTicks\<close>, \<^verbatim>\<open>readStart\<close>, \<^verbatim>\<open>readEnd\<close>,
  \<^verbatim>\<open>writeStart\<close> and \<^verbatim>\<open>writeEnd\<close> from the common module. The module exports no
  such names, so each of the five is \<^verbatim>\<open>undefined\<close> in \<^verbatim>\<open>Sync.ts\<close>. A test
  \<^verbatim>\<open>line.includes(readStart)\<close> therefore looks for the text \<^verbatim>\<open>undefined\<close> in the line.
\<close>

definition markdownCodeTicks :: js_value where
  "markdownCodeTicks = Undefined"

definition readStart :: js_value where
  "readStart = Undefined"

definition readEnd :: js_value where
  "readEnd = Undefined"

definition writeStart :: js_value where
  "writeStart = Undefined"

definition writeEnd :: js_value where
  "writeEnd = Undefined"

section \<open>The id pattern\<close>

text \<open>
  \<^verbatim>\<open>\w\<close> is \<^verbatim>\<open>[A-Za-z0-9_]\<close>; \<^verbatim>\<open>\s\<close> is white space (tab, line feed, vertical tab,
  form feed, carriage return, space and no-break space among the code units below 256).
\<close>

definition is_word :: "char \<Rightarrow> bool" where
  "is_word c = (c \<in> set (''abcdefghijklmnopqrstuvwxyz'' @ ''ABCDEFGHIJKLMNOPQRSTUVWXYZ'' @ ''0123456789_''))"

definition is_space :: "char \<Rightarrow> bool" where
  "is_space c = ((of_char c :: nat) \<in> set [9, 10, 11, 12, 13, 32, 160])"

text \<open>
  A backtracking matcher for the fragment of regular expressions the pattern uses.
  \<open>matches r s\<close> lists, in the order in which the backtracking search tries them, the
  inputs that remain after \<open>r\<close> has matched a prefix of \<open>s\<close>. \<open>Plus\<close> is the greedy
  \<^verbatim>\<open>+\<close>: after each iteration it first tries a further iteration and only then stops.
  An iteration that consumes nothing is not repeated.
\<close>

datatype regex = WordChar | Chr char | Seq regex regex | Plus regex

function plus_iter :: "(string \<Rightarrow> string list) \<Rightarrow> string \<Rightarrow> string list" where
  "plus_iter f s =
     concat (map (\<lambda>s'. (if length s' < length s then plus_iter f s' else []) @ [s']) (f s))"
  by pat_completeness auto
termination
  by (relation "measure (\<lambda>(f, s). length s)") auto

primrec matches :: "regex \<Rightarrow> string \<Rightarrow> string list" where
  "matches WordChar s = (case s of [] \<Rightarrow> [] | c # cs \<Rightarrow> if is_word c then [cs] else [])"
| "matches (Chr d) s = (case s of [] \<Rightarrow> [] | c # cs \<Rightarrow> if c = d then [cs] else [])"
| "matches (Seq a b) s = concat (map (matches b) (matches a s))"
| "matches (Plus a) s = plus_iter (matches a) s"

text \<open>The body of the pattern, \<^verbatim>\<open>(\w+-\w+)+(\w+)\<close>.\<close>

definition id_body :: regex where
  "id_body =
     Seq (Plus (Seq (Plus WordChar) (Seq (Chr (CHR ''-'')) (Plus WordChar)))) (Plus WordChar)"

text \<open>
  The lookbehind \<^verbatim>\<open>(?<=\bSNIPSTART\s)\<close>, on the reversed text before the position:
  a white-space character, before it the word \<^verbatim>\<open>SNIPSTART\<close>, and a word boundary in
  front of the \<^verbatim>\<open>S\<close>, which is the start of the line or a character that is not a word
  character.
\<close>

definition lookbehind :: "string \<Rightarrow> bool" where
  "lookbehind passed =
     (case passed of
        [] \<Rightarrow> False
      | c # cs \<Rightarrow> is_space c \<and> prefix (rev ''SNIPSTART'') cs \<and>
          (case drop 9 cs of [] \<Rightarrow> True | d # _ \<Rightarrow> \<not> is_word d))"

text \<open>
  \<open>first_match passed rest\<close> is the search of \<^verbatim>\<open>String.prototype.match\<close> for the first
  match: at each position from left to right, the first way in which the pattern matches
  there. \<open>passed\<close> is the text already passed, reversed.
\<close>

fun first_match :: "string \<Rightarrow> string \<Rightarrow> string option" where
  "first_match passed rest =
     (case (if lookbehind passed then matches id_body rest else []) of
        e # _ \<Rightarrow> Some (take (length rest - length e) rest)
      | [] \<Rightarrow> (case rest of [] \<Rightarrow> None | c # cs \<Rightarrow> first_match (c # passed) cs))"

datatype error = TypeError

text \<open>
  \<^verbatim>\<open>line.match(/(?<=\bSNIPSTART\s)(\w+-\w+)+(\w+)/g)[0]\<close>: \<^verbatim>\<open>match\<close> returns null when
  nothing matches, and indexing null throws a TypeError.
\<close>

definition extractID :: "string \<Rightarrow> error + string" where
  "extractID line = (case first_match [] line of None \<Rightarrow> Inl TypeError | Some m \<Rightarrow> Inr m)"

text \<open>\<^verbatim>\<open>String.prototype.trim\<close>.\<close>

definition trim :: "string \<Rightarrow> string" where
  "trim s = rev (dropWhile is_space (rev (dropWhile is_space s)))"

section \<open>Snippets and their formatting\<close>

text \<open>
  \<^verbatim>\<open>Array.prototype.splice(start, deleteCount, ...items)\<close> for \<open>start \<ge> 0\<close>: the start
  is clamped to the length, a negative \<open>deleteCount\<close> counts as zero and no more than the
  rest of the array is removed. \<^const>\<open>take\<close> and \<^const>\<open>drop\<close> clamp in the same way.
\<close>

definition js_splice :: "'a list \<Rightarrow> nat \<Rightarrow> int \<Rightarrow> 'a list \<Rightarrow> 'a list" where
  "js_splice xs start deleteCount items = take start xs @ items @ drop (start + nat deleteCount) xs"

text \<open>\<^verbatim>\<open>s.split(sep)\<close> for a separator of one character, and \<^verbatim>\<open>parts.join(sep)\<close>.\<close>

fun js_split :: "char \<Rightarrow> string \<Rightarrow> string list" where
  "js_split sep [] = [[]]"
| "js_split sep (c # cs) =
     (if c = sep then [] # js_split sep cs
      else (case js_split sep cs of [] \<Rightarrow> [[c]] | part # parts \<Rightarrow> (c # part) # parts))"

fun js_join :: "string \<Rightarrow> string list \<Rightarrow> string" where
  "js_join sep [] = []"
| "js_join sep [part] = part"
| "js_join sep (part # parts) = part @ sep @ js_join sep parts"

record FilePath =
  name :: string
  directory :: string
  saved :: bool

text \<open>
  The class \<^verbatim>\<open>Snippet\<close>. The field \<^verbatim>\<open>id\<close> is \<open>snippet_id\<close> here; \<^verbatim>\<open>ref\<close> is
  \<open>None\<close> when it is undefined. The array \<^verbatim>\<open>lines\<close> holds values, since
  \<^verbatim>\<open>fmt\<close> puts \<^verbatim>\<open>markdownCodeTicks\<close> into it.
\<close>

record Snippet =
  snippet_id :: string
  ext :: string
  owner :: string
  repo :: string
  ref :: "string option"
  filePath :: FilePath
  lines :: "js_value list"

definition new_Snippet ::
  "string \<Rightarrow> string \<Rightarrow> string \<Rightarrow> string \<Rightarrow> string option \<Rightarrow> FilePath \<Rightarrow> Snippet" where
  "new_Snippet i e ow rp rf fp =
     \<lparr>snippet_id = i, ext = e, owner = ow, repo = rp, ref = rf, filePath = fp, lines = []\<rparr>"

definition buildPath :: "Snippet \<Rightarrow> string" where
  "buildPath snippet =
     (let sourceURLParts = js_split (CHR ''/'') (directory (filePath snippet))
      in js_join ''/'' (drop 1 sourceURLParts @ [name (filePath snippet)]))"

definition buildURL :: "Snippet \<Rightarrow> string" where
  "buildURL snippet =
     (let sourceURLParts = js_split (CHR ''/'') (directory (filePath snippet));
          r = (if ref snippet \<noteq> Some [] \<and> ref snippet \<noteq> None then the (ref snippet)
               else ''master'')
      in js_join ''/''
           ([''https://github.com'', owner snippet, repo snippet, ''blob'', r]
            @ drop 1 sourceURLParts @ [name (filePath snippet)]))"

definition fmtSourceLink :: "Snippet \<Rightarrow> string" where
  "fmtSourceLink snippet =
     (let url = buildURL snippet; path = buildPath snippet
      in ''['' @ path @ '']('' @ url @ '')'')"

definition fmt :: "bool \<Rightarrow> Snippet \<Rightarrow> Snippet" where
  "fmt sourceLink snippet =
     (let s1 = snippet\<lparr>lines := js_splice (lines snippet) 0 0 [Str (fmtStartCodeBlock (ext snippet))]\<rparr>;
          s2 = s1\<lparr>lines := js_splice (lines s1) (length (lines s1)) 0 [markdownCodeTicks]\<rparr>
      in if sourceLink then s2\<lparr>lines := js_splice (lines s2) 0 0 [Str (fmtSourceLink s2)]\<rparr> else s2)"

section \<open>Extraction\<close>

definition determineExtension :: "string \<Rightarrow> string" where
  "determineExtension path = last (js_split (CHR ''.'') path)"

text \<open>
  The callback that \<^verbatim>\<open>extractSnippets\<close> runs on each line of one source file, on the
  state \<open>(capture, fileSnipsCount, fileSnips)\<close>. The lines that \<^verbatim>\<open>eachLine\<close> reads are
  strings. Reading \<^verbatim>\<open>fileSnips[fileSnipsCount]\<close> past the end of the array gives
  undefined, and \<^verbatim>\<open>undefined.lines\<close> throws a TypeError.
\<close>

type_synonym extract_state = "bool \<times> nat \<times> Snippet list"

definition extract_line ::
  "string \<Rightarrow> string \<Rightarrow> string \<Rightarrow> string option \<Rightarrow> FilePath \<Rightarrow> extract_state \<Rightarrow> string
     \<Rightarrow> error + extract_state" where
  "extract_line e ow rp rf item st line =
     (case st of (capture, fileSnipsCount, fileSnips) \<Rightarrow>
        let capture1 = (if js_includes line (to_string readEnd) then False else capture);
            fileSnipsCount1 =
              (if js_includes line (to_string readEnd) then fileSnipsCount + 1 else fileSnipsCount)
        in case (if capture1 then
                   (if fileSnipsCount1 < length fileSnips then
                      Inr (fileSnips[fileSnipsCount1 :=
                             (fileSnips ! fileSnipsCount1)
                               \<lparr>lines := lines (fileSnips ! fileSnipsCount1) @ [Str line]\<rparr>])
                    else Inl TypeError)
                 else Inr fileSnips) of
             Inl err \<Rightarrow> Inl err
           | Inr fileSnips1 \<Rightarrow>
               if js_includes line (to_string readStart) then
                 (case extractID line of
                    Inl err \<Rightarrow> Inl err
                  | Inr i \<Rightarrow>
                      Inr (True, fileSnipsCount1,
                           fileSnips1 @ [new_Snippet (trim i) e ow rp rf item]))
               else Inr (capture1, fileSnipsCount1, fileSnips1))"

fun extract_lines ::
  "string \<Rightarrow> string \<Rightarrow> string \<Rightarrow> string option \<Rightarrow> FilePath \<Rightarrow> extract_state \<Rightarrow> string list
     \<Rightarrow> error + extract_state" where
  "extract_lines e ow rp rf item st [] = Inr st"
| "extract_lines e ow rp rf item st (line # rest) =
     (case extract_line e ow rp rf item st line of
        Inl err \<Rightarrow> Inl err
      | Inr st' \<Rightarrow> extract_lines e ow rp rf item st' rest)"

text \<open>
  The body of the loop over \<^verbatim>\<open>filePaths\<close> for one file, given the lines that
  \<^verbatim>\<open>eachLine\<close> reads from it: the snippets pushed to \<^verbatim>\<open>snippets\<close>, not yet formatted.
\<close>

definition extractFile ::
  "string \<Rightarrow> string \<Rightarrow> string option \<Rightarrow> FilePath \<Rightarrow> string list \<Rightarrow> error + Snippet list" where
  "extractFile ow rp rf item source_lines =
     (case extract_lines (determineExtension (name item)) ow rp rf item (False, 0, []) source_lines of
        Inl err \<Rightarrow> Inl err
      | Inr (capture, fileSnipsCount, fileSnips) \<Rightarrow> Inr fileSnips)"

section \<open>Splicing and clearing target files\<close>

text \<open>
  The class \<^verbatim>\<open>File\<close>; its field \<^verbatim>\<open>lines\<close> is \<open>file_lines\<close> here. The lines read
  from a target file are strings; a splice puts the values of a snippet among them.
\<close>

record File =
  filename :: string
  file_lines :: "js_value list"

text \<open>\<^verbatim>\<open>spliceFile(start, end, snippet, file)\<close>, on the lines of the file.\<close>

definition spliceFile :: "nat \<Rightarrow> nat \<Rightarrow> Snippet \<Rightarrow> js_value list \<Rightarrow> js_value list" where
  "spliceFile start stop snippet ls =
     (let rmlines = int stop - int start
      in js_splice ls start (rmlines - 1) (lines snippet))"

text \<open>
  One iteration of the loop of \<^verbatim>\<open>getSplicedFile\<close>, at index \<open>idx\<close>. The variables
  \<^verbatim>\<open>staticFile\<close>, \<^verbatim>\<open>dynamicFile\<close> and \<^verbatim>\<open>file\<close> name one object, so there is a
  single array of lines \<open>ls\<close>: the loop reads it, \<^verbatim>\<open>spliceFile\<close> changes it, and the
  iterator of \<^verbatim>\<open>entries()\<close> compares \<open>idx\<close> with its current length. When the value at
  \<open>idx\<close> is undefined, \<^verbatim>\<open>line.includes\<close> throws a TypeError.
\<close>

type_synonym splice_state = "js_value list \<times> nat \<times> bool \<times> nat"

definition splice_line :: "Snippet \<Rightarrow> nat \<Rightarrow> splice_state \<Rightarrow> error + splice_state" where
  "splice_line snippet idx st =
     (case st of (ls, fileLineNumber, lookForStop, spliceStart) \<Rightarrow>
        (case ls ! idx of
           Undefined \<Rightarrow> Inl TypeError
         | Str line \<Rightarrow>
             (case (if js_includes line (to_string writeStart) then
                      (case extractID line of
                         Inl err \<Rightarrow> Inl err
                       | Inr i \<Rightarrow>
                           if i = snippet_id snippet then Inr (fileLineNumber, True)
                           else Inr (spliceStart, lookForStop))
                    else Inr (spliceStart, lookForStop)) of
                Inl err \<Rightarrow> Inl err
              | Inr (spliceStart1, lookForStop1) \<Rightarrow>
                  if js_includes line (to_string writeEnd) \<and> lookForStop1 then
                    Inr (spliceFile spliceStart1 fileLineNumber snippet ls,
                         fileLineNumber + 1, False, spliceStart1)
                  else Inr (ls, fileLineNumber + 1, lookForStop1, spliceStart1))))"

text \<open>
  The loop. A replacement can make the array longer, so the loop need not end: the
  result is \<open>None\<close> when it does not.
\<close>

partial_function (option) splice_loop ::
  "Snippet \<Rightarrow> nat \<Rightarrow> splice_state \<Rightarrow> (error + js_value list) option" where
  "splice_loop snippet idx st =
     (if idx < length (fst st) then
        (case splice_line snippet idx st of
           Inl err \<Rightarrow> Some (Inl err)
         | Inr st' \<Rightarrow> splice_loop snippet (idx + 1) st')
      else Some (Inr (fst st)))"

declare splice_loop.simps [code]

definition getSplicedFile :: "Snippet \<Rightarrow> File \<Rightarrow> (error + File) option" where
  "getSplicedFile snippet file =
     (case splice_loop snippet 0 (file_lines file, 1, False, 0) of
        None \<Rightarrow> None
      | Some (Inl err) \<Rightarrow> Some (Inl err)
      | Some (Inr ls) \<Rightarrow> Some (Inr (file\<lparr>file_lines := ls\<rparr>)))"

text \<open>\<^verbatim>\<open>spliceSnippets\<close>: every snippet against every file, in this order.\<close>

fun splice_files :: "Snippet \<Rightarrow> File list \<Rightarrow> (error + File list) option" where
  "splice_files snippet [] = Some (Inr [])"
| "splice_files snippet (file # files) =
     (case getSplicedFile snippet file of
        None \<Rightarrow> None
      | Some (Inl err) \<Rightarrow> Some (Inl err)
      | Some (Inr file') \<Rightarrow>
          (case splice_files snippet files of
             None \<Rightarrow> None
           | Some (Inl err) \<Rightarrow> Some (Inl err)
           | Some (Inr files') \<Rightarrow> Some (Inr (file' # files'))))"

fun spliceSnippets :: "Snippet list \<Rightarrow> File list \<Rightarrow> (error + File list) option" where
  "spliceSnippets [] files = Some (Inr files)"
| "spliceSnippets (snippet # snippets) files =
     (case splice_files snippet files of
        None \<Rightarrow> None
      | Some (Inl err) \<Rightarrow> Some (Inl err)
      | Some (Inr files') \<Rightarrow> spliceSnippets snippets files')"

text \<open>
  The loop of \<^verbatim>\<open>getClearedFile\<close>, on \<open>omit\<close> and \<open>newFileLines\<close>. On an undefined
  value \<^verbatim>\<open>line.includes\<close> throws a TypeError.
\<close>

fun clear_lines :: "bool \<Rightarrow> js_value list \<Rightarrow> js_value list \<Rightarrow> error + js_value list" where
  "clear_lines omit newFileLines [] = Inr newFileLines"
| "clear_lines omit newFileLines (v # rest) =
     (case v of
        Undefined \<Rightarrow> Inl TypeError
      | Str line \<Rightarrow>
          (let omit1 = (if js_includes line (to_string writeEnd) then False else omit);
               newFileLines1 = (if \<not> omit1 then newFileLines @ [Str line] else newFileLines);
               omit2 = (if js_includes line (to_string writeStart) then True else omit1)
           in clear_lines omit2 newFileLines1 rest))"

definition getClearedFile :: "File \<Rightarrow> error + File" where
  "getClearedFile file =
     (case clear_lines False [] (file_lines file) of
        Inl err \<Rightarrow> Inl err
      | Inr ls \<Rightarrow> Inr (file\<lparr>file_lines := ls\<rparr>))"

fun clearSnippets :: "File list \<Rightarrow> error + File list" where
  "clearSnippets [] = Inr []"
| "clearSnippets (file # files) =
     (case getClearedFile file of
        Inl err \<Rightarrow> Inl err
      | Inr file' \<Rightarrow>
          (case clearSnippets files of
             Inl err \<Rightarrow> Inl err
           | Inr files' \<Rightarrow> Inr (file' # files')))"

section \<open>Vocabulary of the properties\<close>

text \<open>The four marker tests of the code, on a line.\<close>

abbreviation capture_start :: "string \<Rightarrow> bool" where
  "capture_start l \<equiv> js_includes l (to_string readStart)"

abbreviation capture_end :: "string \<Rightarrow> bool" where
  "capture_end l \<equiv> js_includes l (to_string readEnd)"

abbreviation insertion_start :: "string \<Rightarrow> bool" where
  "insertion_start l \<equiv> js_includes l (to_string writeStart)"

abbreviation insertion_end :: "string \<Rightarrow> bool" where
  "insertion_end l \<equiv> js_includes l (to_string writeEnd)"

text \<open>
  The path and the ref of a source link as the specification words them: the segments of
  the directory without the first, then the file name, joined by \<^verbatim>\<open>/\<close>; the ref, or
  \<^verbatim>\<open>master\<close> when it is absent or empty.
\<close>

definition spec_path :: "Snippet \<Rightarrow> string" where
  "spec_path snippet =
     js_join ''/'' (tl (js_split (CHR ''/'') (directory (filePath snippet))) @ [name (filePath snippet)])"

definition spec_ref :: "Snippet \<Rightarrow> string" where
  "spec_ref snippet =
     (case ref snippet of None \<Rightarrow> ''master'' | Some r \<Rightarrow> if r = [] then ''master'' else r)"

text \<open>A line without the text \<^verbatim>\<open>undefined\<close>, and a list of such lines as values.\<close>

definition unmarked :: "string \<Rightarrow> bool" where
  "unmarked l = (\<not> js_includes l ''undefined'')"

definition unmarked_values :: "js_value list \<Rightarrow> bool" where
  "unmarked_values vs = list_all (\<lambda>v. case v of Undefined \<Rightarrow> False | Str l \<Rightarrow> unmarked l) vs"

section \<open>The id pattern on a sample line\<close>

text \<open>
  C3. On the line \<^verbatim>\<open>@@@START SNIPSTART my-id-1\<close> the pattern stops after \<^verbatim>\<open>my-id\<close>:
  every repetition of \<^verbatim>\<open>\w+-\w+\<close> and the closing \<^verbatim>\<open>\w+\<close> need a word character
  each, so a last segment of one character cannot be part of the match. The extracted id is
  \<^verbatim>\<open>my-id\<close>, not \<^verbatim>\<open>my-id-1\<close>.
\<close>

theorem extractID_short_last_segment:
  "extractID ''@@@START SNIPSTART my-id-1'' = Inr ''my-id''"
  by code_simp

section \<open>The marker tests\<close>

text \<open>
  The four tests are one test: the line contains the text \<^verbatim>\<open>undefined\<close>. A line with
  a marker of the common module and without that text passes none of them.
\<close>

lemma capture_start_iff: "capture_start l \<longleftrightarrow> \<not> unmarked l"
  by (simp add: readStart_def to_string_def unmarked_def)

lemma capture_end_iff: "capture_end l \<longleftrightarrow> \<not> unmarked l"
  by (simp add: readEnd_def to_string_def unmarked_def)

lemma insertion_start_iff: "insertion_start l \<longleftrightarrow> \<not> unmarked l"
  by (simp add: writeStart_def to_string_def unmarked_def)

lemma insertion_end_iff: "insertion_end l \<longleftrightarrow> \<not> unmarked l"
  by (simp add: writeEnd_def to_string_def unmarked_def)

section \<open>Formatting\<close>

lemma js_join_append:
  "xs \<noteq> [] \<Longrightarrow> ys \<noteq> [] \<Longrightarrow> js_join sep (xs @ ys) = js_join sep xs @ sep @ js_join sep ys"
  by (induction sep xs rule: js_join.induct) (auto simp: neq_Nil_conv)

lemma buildPath_spec: "buildPath sn = spec_path sn"
  by (simp add: buildPath_def spec_path_def drop_Suc)

lemma buildURL_spec:
  "buildURL sn =
     ''https://github.com/'' @ owner sn @ ''/'' @ repo sn @ ''/blob/'' @ spec_ref sn @ ''/'' @ spec_path sn"
proof -
  have "js_join ''/'' ([''https://github.com'', owner sn, repo sn, ''blob'', spec_ref sn]
          @ (drop 1 (js_split (CHR ''/'') (directory (filePath sn))) @ [name (filePath sn)]))
     = js_join ''/'' [''https://github.com'', owner sn, repo sn, ''blob'', spec_ref sn]
         @ ''/'' @ spec_path sn"
    by (subst js_join_append) (simp_all add: spec_path_def drop_Suc)
  moreover have "(if ref sn \<noteq> Some [] \<and> ref sn \<noteq> None then the (ref sn) else ''master'') = spec_ref sn"
    by (auto simp: spec_ref_def split: option.splits)
  ultimately show ?thesis
    by (simp add: buildURL_def Let_def)
qed

lemma spec_path_lines [simp]: "spec_path (s\<lparr>lines := l\<rparr>) = spec_path s"
  by (simp add: spec_path_def)

lemma spec_ref_lines [simp]: "spec_ref (s\<lparr>lines := l\<rparr>) = spec_ref s"
  by (simp add: spec_ref_def)

lemma fmt_lines:
  "fmt sourceLink sn =
     sn\<lparr>lines :=
          (if sourceLink then
             [Str (''['' @ spec_path sn @ '']('' @ ''https://github.com/'' @ owner sn @ ''/'' @ repo sn
                @ ''/blob/'' @ spec_ref sn @ ''/'' @ spec_path sn @ '')'')]
           else [])
          @ [Str (''```'' @ ext sn)] @ lines sn @ [Undefined]\<rparr>"
  by (simp add: fmt_def Let_def js_splice_def fmtStartCodeBlock_def markdowncodeticks_def
      markdownCodeTicks_def fmtSourceLink_def buildPath_spec buildURL_spec)

text \<open>
  C6. Formatting puts the opening fence with the extension in front of the captured lines
  and, when the source link is asked for, the link line of the specification in front of
  the fence. Behind the captured lines it puts the value of \<^verbatim>\<open>markdownCodeTicks\<close>, which
  is undefined, and not the closing fence. The snippet of the specification, with the
  lines \<open>a\<close> and \<open>b\<close> and the extension \<open>go\<close>, ends with undefined (second conjunct); its
  link line is as specified (third conjunct).
\<close>

theorem fmt_closing_fence_undefined:
  "fmt sourceLink sn =
     sn\<lparr>lines :=
          (if sourceLink then
             [Str (''['' @ spec_path sn @ '']('' @ ''https://github.com/'' @ owner sn @ ''/'' @ repo sn
                @ ''/blob/'' @ spec_ref sn @ ''/'' @ spec_path sn @ '')'')]
           else [])
          @ [Str (''```'' @ ext sn)] @ lines sn @ [Undefined]\<rparr>
   \<and> lines (fmt False
         \<lparr>snippet_id = ''my-id'', ext = ''go'', owner = ''acme'', repo = ''widgets'', ref = Some [],
          filePath = \<lparr>name = ''bar.go'', directory = ''/pkg/foo'', saved = True\<rparr>,
          lines = [Str ''a'', Str ''b'']\<rparr>)
       = [Str ''```go'', Str ''a'', Str ''b'', Undefined]
   \<and> hd (lines (fmt True
         \<lparr>snippet_id = ''my-id'', ext = ''go'', owner = ''acme'', repo = ''widgets'', ref = Some [],
          filePath = \<lparr>name = ''bar.go'', directory = ''/pkg/foo'', saved = True\<rparr>,
          lines = [Str ''a'', Str ''b'']\<rparr>))
       = Str ''[pkg/foo/bar.go](https://github.com/acme/widgets/blob/master/pkg/foo/bar.go)''"
proof (intro conjI)
  show "fmt sourceLink sn =
     sn\<lparr>lines :=
          (if sourceLink then
             [Str (''['' @ spec_path sn @ '']('' @ ''https://github.com/'' @ owner sn @ ''/'' @ repo sn
                @ ''/blob/'' @ spec_ref sn @ ''/'' @ spec_path sn @ '')'')]
           else [])
          @ [Str (''```'' @ ext sn)] @ lines sn @ [Undefined]\<rparr>"
    by (rule fmt_lines)
qed (code_simp, code_simp)

section \<open>Extraction of snippets\<close>

lemma extract_lines_append:
  "extract_lines e ow rp rf item st (xs @ ys) =
     (case extract_lines e ow rp rf item st xs of
        Inl err \<Rightarrow> Inl err
      | Inr st' \<Rightarrow> extract_lines e ow rp rf item st' ys)"
  by (induction xs arbitrary: st) (auto split: sum.splits)

text \<open>Lines without the text \<^verbatim>\<open>undefined\<close> change nothing while no capture is active.\<close>

lemma extract_lines_unmarked:
  "list_all unmarked ls \<Longrightarrow>
   extract_lines e ow rp rf item (False, c, sn) ls = Inr (False, c, sn)"
  by (induction ls) (simp_all add: extract_line_def capture_start_iff capture_end_iff)

lemma extractFile_unmarked:
  "list_all unmarked ls \<Longrightarrow> extractFile ow rp rf item ls = Inr []"
  by (simp add: extractFile_def extract_lines_unmarked)

text \<open>
  C2. A source file with one flat capture region between the markers \<^verbatim>\<open>@@@START\<close> and
  \<^verbatim>\<open>@@@END\<close> of the common module. The capture-start line contains the module's
  \<^verbatim>\<open>readstart\<close> and an id that the pattern finds, but the test of the extractor looks
  for the text \<^verbatim>\<open>undefined\<close>: no line is recognised, and the extraction returns no
  snippet.
\<close>

theorem extractFile_flat_region_not_recognised:
  "js_includes ''// @@@START SNIPSTART my-id'' readstart
   \<and> extractID ''// @@@START SNIPSTART my-id'' = Inr ''my-id''
   \<and> js_includes ''// @@@END'' readend
   \<and> \<not> capture_start ''// @@@START SNIPSTART my-id''
   \<and> \<not> capture_end ''// @@@END''
   \<and> extractFile ''acme'' ''widgets'' None \<lparr>name = ''bar.go'', directory = ''/pkg/foo'', saved = True\<rparr>
       [''package main'', ''// @@@START SNIPSTART my-id'', ''a'', ''b'', ''// @@@END'', ''c'']
     = Inr []"
  by code_simp

text \<open>
  C9. A source file with a capture-start line of the common module inside an open region.
  The extractor recognises neither capture-start line: it emits no snippet record, neither
  for the outer nor for the inner one, and appends no line to any snippet.
\<close>

theorem extractFile_nested_start_not_recognised:
  "js_includes ''// @@@START SNIPSTART out-er'' readstart
   \<and> js_includes ''// @@@START SNIPSTART in-ner'' readstart
   \<and> js_includes ''// @@@END'' readend
   \<and> extractFile ''acme'' ''widgets'' None \<lparr>name = ''bar.go'', directory = ''/pkg/foo'', saved = True\<rparr>
       [''// @@@START SNIPSTART out-er'', ''a'', ''// @@@START SNIPSTART in-ner'', ''b'', ''// @@@END'']
     = Inr []"
  by code_simp

lemma error_is_TypeError: "(err :: error) = TypeError"
  by (cases err) simp

text \<open>The states in which a capture is active and the counter is at the end of the array.\<close>

lemma extract_line_marked:
  assumes m: "capture_end l"
  shows "extract_line e ow rp rf item (capture, length sn, sn) l = Inl TypeError
   \<or> (\<exists>sn'. extract_line e ow rp rf item (capture, length sn, sn) l = Inr (True, length sn', sn'))"
proof (cases "extractID l")
  case (Inl err)
  then have "extract_line e ow rp rf item (capture, length sn, sn) l = Inl TypeError"
    using m by (simp add: extract_line_def capture_start_iff capture_end_iff error_is_TypeError[of err])
  then show ?thesis ..
next
  case (Inr i)
  then have "extract_line e ow rp rf item (capture, length sn, sn) l
               = Inr (True, length (sn @ [new_Snippet (trim i) e ow rp rf item]),
                      sn @ [new_Snippet (trim i) e ow rp rf item])"
    using m by (simp add: extract_line_def capture_start_iff capture_end_iff)
  then show ?thesis by blast
qed

lemma extract_line_unmarked_active:
  "\<not> capture_end l \<Longrightarrow> extract_line e ow rp rf item (True, length sn, sn) l = Inl TypeError"
  by (simp add: extract_line_def capture_start_iff capture_end_iff)

lemma extract_lines_active:
  "extract_lines e ow rp rf item (True, length sn, sn) ls = Inl TypeError
   \<or> (\<exists>sn'. extract_lines e ow rp rf item (True, length sn, sn) ls = Inr (True, length sn', sn'))"
proof (induction ls arbitrary: sn)
  case Nil
  then show ?case by simp
next
  case (Cons l ls)
  show ?case
  proof (cases "capture_end l")
    case False
    then show ?thesis by (simp add: extract_line_unmarked_active)
  next
    case True
    from extract_line_marked[OF True, of e ow rp rf item True sn]
    show ?thesis
    proof
      assume "extract_line e ow rp rf item (True, length sn, sn) l = Inl TypeError"
      then show ?thesis by simp
    next
      assume "\<exists>sn'. extract_line e ow rp rf item (True, length sn, sn) l = Inr (True, length sn', sn')"
      then obtain sn' where "extract_line e ow rp rf item (True, length sn, sn) l = Inr (True, length sn', sn')"
        by blast
      then show ?thesis using Cons.IH[of sn'] by simp
    qed
  qed
qed

text \<open>
  C10. Extraction is not total. Take a file whose first line that passes a marker test
  passes the capture-end test, with a capture-start line somewhere after it and a line
  that is not a capture-end right behind that one. The capture-end line raises the counter
  \<^verbatim>\<open>fileSnipsCount\<close> while no capture is active. From then on the counter is at the
  length of the array of snippets whenever a capture is active, so the line behind the
  capture-start line is appended at \<^verbatim>\<open>fileSnips[fileSnipsCount]\<close>, one position past
  the end of the array: the extraction of the file fails with a TypeError, unless it has
  failed before on a marker line without id.
\<close>

theorem stray_capture_end_fails:
  assumes pre: "\<forall>l \<in> set pre. \<not> capture_start l \<and> \<not> capture_end l"
    and en: "capture_end en"
    and s: "capture_start s"
    and x: "\<not> capture_end x"
  shows "extractFile ow rp rf item (pre @ [en] @ mid @ [s, x] @ rest) = Inl TypeError"
proof -
  let ?e = "determineExtension (name item)"
  let ?run = "extract_lines ?e ow rp rf item"
  have "list_all unmarked pre"
    using pre by (simp add: list_all_iff capture_end_iff)
  then have 0: "?run (False, 0, []) pre = Inr (False, 0, [])"
    by (rule extract_lines_unmarked)
  have "?run (False, 0, []) (pre @ [en] @ mid @ [s, x] @ rest) = Inl TypeError"
    using extract_line_marked[OF en, of ?e ow rp rf item False "[]"]
  proof
    assume "extract_line ?e ow rp rf item (False, length [], []) en = Inl TypeError"
    then show ?thesis using 0 by (simp add: extract_lines_append)
  next
    assume "\<exists>sn'. extract_line ?e ow rp rf item (False, length [], []) en = Inr (True, length sn', sn')"
    then obtain sn1 where 1: "extract_line ?e ow rp rf item (False, 0, []) en = Inr (True, length sn1, sn1)"
      by auto
    from extract_lines_active[of ?e ow rp rf item sn1 "mid @ [s]"]
    show ?thesis
    proof
      assume "?run (True, length sn1, sn1) (mid @ [s]) = Inl TypeError"
      then have "?run (True, length sn1, sn1) ((mid @ [s]) @ x # rest) = Inl TypeError"
        by (subst extract_lines_append) simp
      then show ?thesis using 0 1 by (simp add: extract_lines_append)
    next
      assume "\<exists>sn'. ?run (True, length sn1, sn1) (mid @ [s]) = Inr (True, length sn', sn')"
      then obtain sn2 where 2: "?run (True, length sn1, sn1) (mid @ [s]) = Inr (True, length sn2, sn2)"
        by blast
      have "extract_line ?e ow rp rf item (True, length sn2, sn2) x = Inl TypeError"
        using x by (rule extract_line_unmarked_active)
      then have "?run (True, length sn2, sn2) (x # rest) = Inl TypeError"
        by simp
      then have "?run (True, length sn1, sn1) ((mid @ [s]) @ x # rest) = Inl TypeError"
        by (subst extract_lines_append) (simp add: 2)
      then show ?thesis using 0 1 by (simp add: extract_lines_append)
    qed
  qed
  then show ?thesis
    by (simp add: extractFile_def)
qed

text \<open>
  A source file whose second and third line pass the tests and carry an id each, followed
  by an ordinary line: after the two lines the counter is 2 and the array holds two
  snippets, and the append of the fourth line fails.
\<close>

theorem stray_capture_end_fails_witness:
  "list_all (\<lambda>l. \<not> capture_start l \<and> \<not> capture_end l) [''package main'']
   \<and> capture_end ''// undefined SNIPSTART my-id''
   \<and> capture_start ''// undefined SNIPSTART ot-her''
   \<and> \<not> capture_end ''x := 1''
   \<and> extract_lines ''go'' ''acme'' ''widgets'' None
        \<lparr>name = ''bar.go'', directory = ''/pkg/foo'', saved = True\<rparr> (False, 0, [])
        [''package main'', ''// undefined SNIPSTART my-id'', ''// undefined SNIPSTART ot-her'']
      = Inr (True, 2,
             [\<lparr>snippet_id = ''my-id'', ext = ''go'', owner = ''acme'', repo = ''widgets'', ref = None,
               filePath = \<lparr>name = ''bar.go'', directory = ''/pkg/foo'', saved = True\<rparr>, lines = []\<rparr>,
              \<lparr>snippet_id = ''ot-her'', ext = ''go'', owner = ''acme'', repo = ''widgets'', ref = None,
               filePath = \<lparr>name = ''bar.go'', directory = ''/pkg/foo'', saved = True\<rparr>, lines = []\<rparr>])
   \<and> extractFile ''acme'' ''widgets'' None \<lparr>name = ''bar.go'', directory = ''/pkg/foo'', saved = True\<rparr>
       [''package main'', ''// undefined SNIPSTART my-id'', ''// undefined SNIPSTART ot-her'', ''x := 1'',
        ''y := 2'']
     = Inl TypeError"
  using stray_capture_end_fails[where pre = "[''package main'']"
      and en = "''// undefined SNIPSTART my-id''" and mid = "[]"
      and s = "''// undefined SNIPSTART ot-her''"
      and x = "''x := 1''" and rest = "[''y := 2'']"
      and ow = "''acme''" and rp = "''widgets''" and rf = None
      and item = "\<lparr>name = ''bar.go'', directory = ''/pkg/foo'', saved = True\<rparr>"]
  by code_simp

section \<open>Splicing\<close>

text \<open>
  The pass over a file whose lines are strings without the text \<^verbatim>\<open>undefined\<close> changes
  nothing, whatever the snippet.
\<close>

lemma splice_line_unmarked:
  "ls ! idx = Str l \<Longrightarrow> unmarked l \<Longrightarrow>
   splice_line sn idx (ls, fln, look, st) = Inr (ls, fln + 1, look, st)"
  by (simp add: splice_line_def insertion_start_iff insertion_end_iff)

lemma splice_loop_unmarked:
  "unmarked_values ls \<Longrightarrow> splice_loop sn idx (ls, fln, look, st) = Some (Inr ls)"
proof (induction "length ls - idx" arbitrary: idx fln)
  case 0
  then show ?case by (subst splice_loop.simps) simp
next
  case (Suc d)
  then have idx: "idx < length ls" by simp
  then have "ls ! idx \<in> set ls" by simp
  moreover have "\<forall>v \<in> set ls. case v of Undefined \<Rightarrow> False | Str l \<Rightarrow> unmarked l"
    using Suc.prems by (simp add: unmarked_values_def list_all_iff)
  ultimately have "case ls ! idx of Undefined \<Rightarrow> False | Str l \<Rightarrow> unmarked l"
    by blast
  then obtain l where l: "ls ! idx = Str l" "unmarked l"
    by (cases "ls ! idx") simp_all
  have "splice_loop sn idx (ls, fln, look, st) = splice_loop sn (Suc idx) (ls, fln + 1, look, st)"
    using idx by (subst splice_loop.simps) (simp add: splice_line_unmarked[OF l])
  also have "\<dots> = Some (Inr ls)"
    using Suc.hyps(2) Suc.prems by (intro Suc.hyps(1)) simp_all
  finally show ?case .
qed

lemma getSplicedFile_unmarked:
  "unmarked_values (file_lines target) \<Longrightarrow> getSplicedFile sn target = Some (Inr target)"
  by (simp add: getSplicedFile_def splice_loop_unmarked)

text \<open>
  C1. The example of the specification, with its insertion-start line as written and with
  an insertion-start line on which the pattern finds the id of the snippet. The lines
  contain the markers \<^verbatim>\<open>writestart\<close> and \<^verbatim>\<open>writeend\<close> of the common module, but the
  tests of the pass look for the text \<^verbatim>\<open>undefined\<close>: no line is recognised and the pass
  returns both files as they are, with \<open>old1\<close> and \<open>old2\<close> between the markers.
\<close>

theorem getSplicedFile_region_not_replaced:
  "js_includes ''<!--START SNIPSTART my-id-->'' writestart
   \<and> extractID ''<!--START SNIPSTART my-id-->'' = Inr ''my-id''
   \<and> js_includes ''<!--END-->'' writeend
   \<and> \<not> insertion_start ''<!--START SNIPSTART my-id-->''
   \<and> \<not> insertion_end ''<!--END-->''
   \<and> getSplicedFile
       (fmt False
          \<lparr>snippet_id = ''my-id'', ext = ''js'', owner = ''acme'', repo = ''widgets'', ref = None,
           filePath = \<lparr>name = ''bar.js'', directory = ''/pkg/foo'', saved = True\<rparr>,
           lines = [Str ''new'']\<rparr>)
       \<lparr>filename = ''t.md'',
        file_lines = [Str ''x'', Str ''<!--START SNIPSTART my-id-->'', Str ''old1'', Str ''old2'',
                      Str ''<!--END-->'', Str ''y'']\<rparr>
     = Some (Inr \<lparr>filename = ''t.md'',
                   file_lines = [Str ''x'', Str ''<!--START SNIPSTART my-id-->'', Str ''old1'', Str ''old2'',
                                 Str ''<!--END-->'', Str ''y'']\<rparr>)
   \<and> getSplicedFile
       \<lparr>snippet_id = ''id1'', ext = ''js'', owner = ''acme'', repo = ''widgets'', ref = None,
        filePath = \<lparr>name = ''bar.js'', directory = ''/pkg/foo'', saved = True\<rparr>,
        lines = [Str ''```js'', Str ''new'', Str ''```'']\<rparr>
       \<lparr>filename = ''t.md'',
        file_lines = [Str ''x'', Str ''<!--START id1-->'', Str ''old1'', Str ''old2'', Str ''<!--END-->'',
                      Str ''y'']\<rparr>
     = Some (Inr \<lparr>filename = ''t.md'',
                   file_lines = [Str ''x'', Str ''<!--START id1-->'', Str ''old1'', Str ''old2'',
                                 Str ''<!--END-->'', Str ''y'']\<rparr>)"
  by code_simp

text \<open>
  C7. A file with two regions for the id of the snippet, between markers of the common
  module. The pass recognises no marker line and returns the file with both regions as
  they were: neither \<open>old1\<close> nor \<open>old2\<close> is replaced.
\<close>

theorem getSplicedFile_two_regions_not_replaced:
  "getSplicedFile
     (fmt False
        \<lparr>snippet_id = ''my-id'', ext = ''js'', owner = ''acme'', repo = ''widgets'', ref = None,
         filePath = \<lparr>name = ''bar.js'', directory = ''/pkg/foo'', saved = True\<rparr>,
         lines = [Str ''new'']\<rparr>)
     \<lparr>filename = ''t.md'',
      file_lines = [Str ''<!--START SNIPSTART my-id-->'', Str ''old1'', Str ''<!--END-->'', Str ''between'',
                    Str ''<!--START SNIPSTART my-id-->'', Str ''old2'', Str ''<!--END-->'']\<rparr>
   = Some (Inr \<lparr>filename = ''t.md'',
                 file_lines = [Str ''<!--START SNIPSTART my-id-->'', Str ''old1'', Str ''<!--END-->'',
                               Str ''between'', Str ''<!--START SNIPSTART my-id-->'', Str ''old2'',
                               Str ''<!--END-->'']\<rparr>)"
  by code_simp

text \<open>
  C8. A source file with a capture-start line and a target file with an insertion-start
  line, both with a marker of the common module and without an id that the pattern could
  find. Neither line is recognised as a marker line, so the pattern is never tried on it:
  the extraction returns no snippet and the splice pass returns the file as it is. Neither
  fails; the two lines are passed over without a failure of any kind.
\<close>

theorem marker_without_id_passed_over:
  "js_includes ''// @@@START oops'' readstart
   \<and> extractID ''// @@@START oops'' = Inl TypeError
   \<and> extractFile ''acme'' ''widgets'' None \<lparr>name = ''bar.go'', directory = ''/pkg/foo'', saved = True\<rparr>
       [''package main'', ''// @@@START oops'', ''x := 1'', ''// @@@END'']
     = Inr []
   \<and> js_includes ''<!--START oops-->'' writestart
   \<and> extractID ''<!--START oops-->'' = Inl TypeError
   \<and> getSplicedFile
       (fmt False
          \<lparr>snippet_id = ''my-id'', ext = ''js'', owner = ''acme'', repo = ''widgets'', ref = None,
           filePath = \<lparr>name = ''bar.js'', directory = ''/pkg/foo'', saved = True\<rparr>,
           lines = [Str ''new'']\<rparr>)
       \<lparr>filename = ''t.md'', file_lines = [Str ''x'', Str ''<!--START oops-->'', Str ''<!--END-->'']\<rparr>
     = Some (Inr \<lparr>filename = ''t.md'',
                   file_lines = [Str ''x'', Str ''<!--START oops-->'', Str ''<!--END-->'']\<rparr>)"
  by code_simp

section \<open>Clearing\<close>

text \<open>Clearing a file whose lines are strings without the text \<^verbatim>\<open>undefined\<close> keeps
  every line.\<close>

lemma clear_lines_unmarked:
  "unmarked_values ls \<Longrightarrow> clear_lines False acc ls = Inr (acc @ ls)"
proof (induction ls arbitrary: acc)
  case Nil
  then show ?case by simp
next
  case (Cons v ls)
  then obtain l where l: "v = Str l" "unmarked l"
    by (cases v) (auto simp: unmarked_values_def)
  have "unmarked_values ls"
    using Cons.prems by (simp add: unmarked_values_def)
  then show ?case
    using l Cons.IH[of "acc @ [Str l]"]
    by (simp add: Let_def insertion_start_iff insertion_end_iff)
qed

lemma getClearedFile_unmarked:
  "unmarked_values (file_lines target) \<Longrightarrow> getClearedFile target = Inr target"
  by (simp add: getClearedFile_def clear_lines_unmarked)

text \<open>
  C4. The spliced file of the specification's example. Its lines contain the markers
  \<^verbatim>\<open>writestart\<close> and \<^verbatim>\<open>writeend\<close> of the common module, but the tests of the clear
  operation look for the text \<^verbatim>\<open>undefined\<close>: the operation removes nothing, and the
  three lines between the markers stay in the file.
\<close>

theorem getClearedFile_region_not_emptied:
  "js_includes ''<!--START id1-->'' writestart
   \<and> js_includes ''<!--END-->'' writeend
   \<and> \<not> insertion_start ''<!--START id1-->''
   \<and> \<not> insertion_end ''<!--END-->''
   \<and> getClearedFile
       \<lparr>filename = ''t.md'',
        file_lines = [Str ''x'', Str ''<!--START id1-->'', Str ''```js'', Str ''new'', Str ''```'',
                      Str ''<!--END-->'', Str ''y'']\<rparr>
     = Inr \<lparr>filename = ''t.md'',
            file_lines = [Str ''x'', Str ''<!--START id1-->'', Str ''```js'', Str ''new'', Str ''```'',
                          Str ''<!--END-->'', Str ''y'']\<rparr>"
  by code_simp

text \<open>
  C5. A target file with one region between markers of the common module, and the
  snippet for its id. The splice returns the file as it is and so does the clear that
  follows: the region still holds \<open>old1\<close> and \<open>old2\<close>, it is not empty.
\<close>

theorem clear_after_splice_region_not_emptied:
  "spliceSnippets
     [fmt False
        \<lparr>snippet_id = ''my-id'', ext = ''js'', owner = ''acme'', repo = ''widgets'', ref = None,
         filePath = \<lparr>name = ''bar.js'', directory = ''/pkg/foo'', saved = True\<rparr>,
         lines = [Str ''new'']\<rparr>]
     [\<lparr>filename = ''t.md'',
       file_lines = [Str ''<!--START SNIPSTART my-id-->'', Str ''old1'', Str ''old2'', Str ''<!--END-->'']\<rparr>]
   = Some (Inr [\<lparr>filename = ''t.md'',
                  file_lines = [Str ''<!--START SNIPSTART my-id-->'', Str ''old1'', Str ''old2'',
                                Str ''<!--END-->'']\<rparr>])
   \<and> clearSnippets
       [\<lparr>filename = ''t.md'',
         file_lines = [Str ''<!--START SNIPSTART my-id-->'', Str ''old1'', Str ''old2'', Str ''<!--END-->'']\<rparr>]
     = Inr [\<lparr>filename = ''t.md'',
             file_lines = [Str ''<!--START SNIPSTART my-id-->'', Str ''old1'', Str ''old2'',
                           Str ''<!--END-->'']\<rparr>]"
  by code_simp

end
